theory Spec2Isabelle
  imports Complex_Main "HOL-Library.Word"
begin

section \<open>Values handed to the publish service\<close>

text \<open>
  The video payload of \<^verbatim>\<open>Publish.publishVideo\<close> is declared as
  \<^verbatim>\<open>Buffer | Blob | File\<close>, but the body tests it at run time
  (\<^verbatim>\<open>typeof\<close>, \<^verbatim>\<open>instanceof\<close>, \<^verbatim>\<open>Buffer.isBuffer\<close>), so the
  argument is modelled as a JavaScript value that may be anything.
\<close>

type_synonym byte = "8 word"

text \<open>A Node Buffer: a window of \<open>byteLength\<close> bytes at \<open>byteOffset\<close> into its ArrayBuffer.\<close>

record Buffer =
  arrayBuffer :: "byte list"
  byteOffset :: nat
  byteLength :: nat

record Blob =
  blob_bytes :: "byte list"
  blob_type :: string

record File =
  file_bytes :: "byte list"
  file_name :: string
  file_type :: string

datatype js_value =
    JUndefined
  | JNull
  | JNumber int
  | JString string
  | JBuffer Buffer
  | JBlob Blob
  | JFile File

text \<open>\<^verbatim>\<open>new Uint8Array(buf, off, len)\<close>: the bytes of the window.\<close>

definition Uint8Array :: "byte list \<Rightarrow> nat \<Rightarrow> nat \<Rightarrow> byte list" where
  "Uint8Array buf off len = take len (drop off buf)"

text \<open>The bytes a Buffer holds are the bytes of its window.\<close>

definition buffer_bytes :: "Buffer \<Rightarrow> byte list" where
  "buffer_bytes b = take (byteLength b) (drop (byteOffset b) (arrayBuffer b))"

text \<open>\<^verbatim>\<open>file.size\<close>\<close>

definition file_size :: "File \<Rightarrow> nat" where
  "file_size f = length (file_bytes f)"

datatype exception =
    AppwriteException string
  | TypeError string

type_synonym Payload = "string \<rightharpoonup> js_value"
type_synonym Headers = "string \<rightharpoonup> string"

section \<open>The client the service delegates to\<close>

record client_config =
  endpoint :: string

record Client =
  config :: client_config

text \<open>
  The static property \<^verbatim>\<open>Client.CHUNK_SIZE\<close>, which \<^verbatim>\<open>publishVideo\<close> reads at each
  call. The class \<^verbatim>\<open>Client\<close> is declared in \<^verbatim>\<open>client.ts\<close>, which is not among the
  sources, so the value the static holds at a call is a parameter of the service.
\<close>

record Client_statics =
  CHUNK_SIZE :: nat

text \<open>
  Modelled from the spec: the value of \<^verbatim>\<open>Client.CHUNK_SIZE\<close> unless it is reconfigured
  (its declaration in \<^verbatim>\<open>client.ts\<close> is missing). The spec gives the default chunk size
  as 5 MiB; the README says chunking starts above 5 MB and is configurable via
  \<^verbatim>\<open>Client.CHUNK_SIZE\<close>, and its example range \<^verbatim>\<open>bytes 0-5242879/10485760\<close> agrees.
\<close>

definition Client_statics_default :: Client_statics where
  "Client_statics_default = \<lparr>CHUNK_SIZE = 5 * 1024 * 1024\<rparr>"

text \<open>
  \<^verbatim>\<open>onProgress || (() => {})\<close>: the callback passed on to the chunked upload is the
  caller's, or a function that does nothing.
\<close>

datatype 'cb progress_callback =
    Supplied 'cb
  | Noop

text \<open>
  The two methods of \<^verbatim>\<open>Client\<close> that \<^verbatim>\<open>publishVideo\<close> returns through, with the
  arguments they are given: \<^verbatim>\<open>client.call(method, uri, headers, payload)\<close> and
  \<^verbatim>\<open>client.chunkedUpload(method, uri, headers, payload, onProgress)\<close>.
\<close>

datatype ('url, 'cb) client_request =
    Call string 'url Headers Payload
  | ChunkedUpload string 'url Headers Payload "'cb progress_callback"

section \<open>Publish.publishVideo\<close>

definition apiPath :: string where
  "apiPath = ''/douyin/publish/action/''"

text \<open>
  The conversion of the payload to a \<^verbatim>\<open>File\<close>: the \<^verbatim>\<open>instanceof File\<close>,
  \<^verbatim>\<open>instanceof Blob\<close>, \<^verbatim>\<open>Buffer.isBuffer\<close> chain, in the source's order. \<open>None\<close>
  is the final \<^verbatim>\<open>else\<close>, where the source throws.
\<close>

fun fileData_of :: "js_value \<Rightarrow> File option" where
  "fileData_of (JFile f) = Some f"
| "fileData_of (JBlob b) =
     Some \<lparr>file_bytes = blob_bytes b, file_name = ''video.mp4'', file_type = ''video/mp4''\<rparr>"
| "fileData_of (JBuffer d) =
     Some \<lparr>file_bytes = Uint8Array (arrayBuffer d) (byteOffset d) (byteLength d),
           file_name = ''video.mp4'', file_type = ''video/mp4''\<rparr>"
| "fileData_of _ = None"

text \<open>
  \<^verbatim>\<open>publishVideo(actorId, token, data, title, onProgress?)\<close>. An argument that is
  \<^verbatim>\<open>undefined\<close> is \<open>None\<close> (\<open>JUndefined\<close> for the payload). The function is
  \<^verbatim>\<open>async\<close>: a \<^verbatim>\<open>throw\<close> in its body is the rejection \<open>Inl\<close>, raised before any
  method of the client is invoked; otherwise it returns what one method of the client
  returns, \<open>Inr\<close> of that invocation. The platform's \<^verbatim>\<open>new URL(...)\<close>, which throws a
  \<^verbatim>\<open>TypeError\<close> on a string that is no URL, is the parameter \<open>new_URL\<close>; the statics
  of the class \<^verbatim>\<open>Client\<close> at the time of the call are the parameter \<open>statics\<close>.
\<close>

definition publishVideo ::
  "(string \<Rightarrow> 'url option) \<Rightarrow> Client_statics \<Rightarrow> Client \<Rightarrow> int option \<Rightarrow> string option \<Rightarrow>
   js_value \<Rightarrow> string option \<Rightarrow> 'cb option \<Rightarrow> exception + ('url, 'cb) client_request" where
  "publishVideo new_URL statics client actorId token data title onProgress =
    (case actorId of
       None \<Rightarrow> Inl (AppwriteException ''Missing required parameter: \"actorId\"'')
     | Some actor \<Rightarrow>
    (case token of
       None \<Rightarrow> Inl (AppwriteException ''Missing required parameter: \"token\"'')
     | Some tok \<Rightarrow>
    (if data = JUndefined
       then Inl (AppwriteException ''Missing required parameter: \"data\"'')
     else
    (case title of
       None \<Rightarrow> Inl (AppwriteException ''Missing required parameter: \"title\"'')
     | Some ttl \<Rightarrow>
    (case fileData_of data of
       None \<Rightarrow> Inl (AppwriteException ''Invalid data type. Expected Buffer, Blob, or File'')
     | Some fileData \<Rightarrow>
    (case new_URL (endpoint (config client) @ apiPath) of
       None \<Rightarrow> Inl (TypeError ''Invalid URL'')
     | Some uri \<Rightarrow>
        (let payload = [''actor_id'' \<mapsto> JNumber actor, ''token'' \<mapsto> JString tok,
                        ''title'' \<mapsto> JString ttl, ''data'' \<mapsto> JFile fileData];
             apiHeaders = [''content-type'' \<mapsto> ''multipart/form-data'']
         in if file_size fileData > CHUNK_SIZE statics \<or> onProgress \<noteq> None
            then Inr (ChunkedUpload ''post'' uri apiHeaders payload
                        (case onProgress of Some cb \<Rightarrow> Supplied cb | None \<Rightarrow> Noop))
            else Inr (Call ''post'' uri apiHeaders payload))))))))"

text \<open>The invocations of the client's methods that a call of the service makes.\<close>

fun client_invocations ::
  "exception + ('url, 'cb) client_request \<Rightarrow> ('url, 'cb) client_request list" where
  "client_invocations (Inl e) = []"
| "client_invocations (Inr q) = [q]"

fun ordinary_call :: "exception + ('url, 'cb) client_request \<Rightarrow> bool" where
  "ordinary_call (Inr (Call m u h p)) = True"
| "ordinary_call _ = False"

fun chunked_path :: "exception + ('url, 'cb) client_request \<Rightarrow> bool" where
  "chunked_path (Inr (ChunkedUpload m u h p cb)) = True"
| "chunked_path _ = False"

fun request_payload :: "('url, 'cb) client_request \<Rightarrow> Payload" where
  "request_payload (Call m u h p) = p"
| "request_payload (ChunkedUpload m u h p cb) = p"

fun is_AppwriteException :: "exception + 'a \<Rightarrow> bool" where
  "is_AppwriteException (Inl (AppwriteException msg)) = True"
| "is_AppwriteException _ = False"

text \<open>The run-time tests of the payload's class. A \<^verbatim>\<open>File\<close> is also a \<^verbatim>\<open>Blob\<close>.\<close>

fun isBuffer :: "js_value \<Rightarrow> bool" where
  "isBuffer (JBuffer d) = True"
| "isBuffer _ = False"

fun instanceof_Blob :: "js_value \<Rightarrow> bool" where
  "instanceof_Blob (JBlob b) = True"
| "instanceof_Blob (JFile f) = True"
| "instanceof_Blob _ = False"

fun instanceof_File :: "js_value \<Rightarrow> bool" where
  "instanceof_File (JFile f) = True"
| "instanceof_File _ = False"

text \<open>
  The bytes of the payload the caller hands over, and the payload's size: the content
  of a File or a Blob, the window of a Buffer. They are read off the argument itself,
  not off the conversion above.
\<close>

fun data_bytes :: "js_value \<Rightarrow> byte list" where
  "data_bytes (JFile f) = file_bytes f"
| "data_bytes (JBlob b) = blob_bytes b"
| "data_bytes (JBuffer d) = buffer_bytes d"
| "data_bytes _ = []"

definition data_size :: "js_value \<Rightarrow> nat" where
  "data_size data = length (data_bytes data)"

section \<open>The entry point as the specification words it\<close>

text \<open>
  The specification's caller-facing surface is one entry point taking
  \<^verbatim>\<open>(ownerId, authToken, payload, title, chunkSizeOverride?, onProgress?)\<close>, whose chunk
  size is the fixed default unless the caller overrides it, and whose first step skips
  chunking when \<^verbatim>\<open>payload.size <= chunkSize\<close> and no progress callback was supplied.
  These two definitions follow those words; they are compared with \<open>publishVideo\<close>.
\<close>

definition spec_chunkSize :: "nat option \<Rightarrow> nat" where
  "spec_chunkSize chunkSizeOverride =
     (case chunkSizeOverride of None \<Rightarrow> CHUNK_SIZE Client_statics_default | Some c \<Rightarrow> c)"

definition spec_skips_chunking :: "nat \<Rightarrow> nat option \<Rightarrow> bool \<Rightarrow> bool" where
  "spec_skips_chunking payload_size chunkSizeOverride callback_supplied =
     (payload_size \<le> spec_chunkSize chunkSizeOverride \<and> \<not> callback_supplied)"

section \<open>The chunk planner and the upload session of the specification\<close>

text \<open>
  \<^verbatim>\<open>Client.chunkedUpload\<close>, the method that plans and sends the chunks, is declared in
  \<^verbatim>\<open>client.ts\<close>, which is not among the sources: the service above only calls it.
  The definitions of this section are therefore written from the specification's
  description of its two components, \<^verbatim>\<open>ChunkPlanner\<close> and \<^verbatim>\<open>ChunkedUploadSession\<close>.
\<close>

text \<open>
  Modelled from the spec: the data model's \<^verbatim>\<open>ChunkRange { start, end, totalSize, index }\<close>
  (the planner's code is missing). \<open>start\<close> and \<open>end'\<close> are inclusive byte offsets;
  they are integers so that the empty payload's range \<^verbatim>\<open>[0, -1]\<close> can be written.
\<close>

record ChunkRange =
  start :: int
  end' :: int
  totalSize :: int
  index :: nat

text \<open>The number of bytes a range addresses, \<^verbatim>\<open>end - start + 1\<close>.\<close>

definition range_length :: "ChunkRange \<Rightarrow> int" where
  "range_length r = end' r - start r + 1"

text \<open>
  Modelled from the spec: the body of \<^verbatim>\<open>ChunkPlanner.plan\<close> for a payload that is not
  empty (the planner's code is missing). The payload is cut from offset 0 into ranges
  \<open>chunk_size\<close> bytes wide, the last one shorter when the size is not a multiple, as in
  the specification's example of 12 MiB in 5 MiB chunks. Outside the precondition
  \<^verbatim>\<open>chunkSize > 0\<close> no range is produced.
\<close>

function plan_from :: "int \<Rightarrow> nat \<Rightarrow> int \<Rightarrow> int \<Rightarrow> ChunkRange list" where
  "plan_from offset i total_size chunk_size =
     (if chunk_size \<le> 0 \<or> total_size \<le> offset then []
      else \<lparr>start = offset, end' = min (offset + chunk_size) total_size - 1,
             totalSize = total_size, index = i\<rparr>
           # plan_from (min (offset + chunk_size) total_size) (Suc i) total_size chunk_size)"
  by pat_completeness auto
termination
  by (relation "measure (\<lambda>(offset, i, total_size, chunk_size). nat (total_size - offset))") auto

declare plan_from.simps [simp del]

text \<open>
  Modelled from the spec: \<^verbatim>\<open>ChunkPlanner.plan(totalSize, chunkSize)\<close> (the planner's code
  is missing). By the specification's policy an empty payload still yields one
  zero-length range \<^verbatim>\<open>[0, -1]\<close>.
\<close>

definition plan :: "int \<Rightarrow> int \<Rightarrow> ChunkRange list" where
  "plan total_size chunk_size =
     (if total_size = 0 then [\<lparr>start = 0, end' = - 1, totalSize = 0, index = 0\<rparr>]
      else plan_from 0 0 total_size chunk_size)"

text \<open>Each range starts where the one before it ended, the first at \<open>offset\<close>.\<close>

fun contiguous_from :: "int \<Rightarrow> ChunkRange list \<Rightarrow> bool" where
  "contiguous_from offset [] = True"
| "contiguous_from offset (r # rs) = (start r = offset \<and> contiguous_from (end' r + 1) rs)"

text \<open>
  Modelled from the spec: the data model's \<^verbatim>\<open>UploadSessionState\<close> (the session's code
  is missing): the continuation identifier, absent until the backend has acknowledged
  a chunk, and the counters taken from the backend's last acknowledgement.
\<close>

record UploadSessionState =
  continuationId :: "string option"
  bytesUploaded :: nat
  chunksUploaded :: nat
  chunksTotal :: nat
  currentRangeIndex :: nat

text \<open>
  Modelled from the spec: what one chunk's transport call carries (the session's code
  is missing): the slice, the range descriptor \<^verbatim>\<open>bytes {start}-{end}/{totalSize}\<close>, the
  caller's metadata, and the continuation identifier if a prior chunk was assigned one.
\<close>

record 'm ChunkCall =
  sliceBytes :: "byte list"
  rangeDescriptor :: ChunkRange
  metadata :: 'm
  call_continuationId :: "string option"

text \<open>
  Modelled from the spec: the response to a chunk call that succeeded (the backend and
  the client's transport are missing): the continuation identifier and the backend's
  cumulative counters.
\<close>

record Acknowledgement =
  ack_continuationId :: string
  ack_chunksUploaded :: nat
  ack_bytesUploaded :: nat

text \<open>Modelled from the spec: step 3a of the session, the payload's bytes in a range.\<close>

definition slice_of :: "byte list \<Rightarrow> ChunkRange \<Rightarrow> byte list" where
  "slice_of payload r = take (nat (range_length r)) (drop (nat (start r)) payload)"

text \<open>
  Modelled from the spec: step 3 of \<^verbatim>\<open>ChunkedUploadSession.run\<close>, the loop over the
  ranges (the session's code is missing). The transport and the backend behind it are
  the parameter \<open>transport\<close>, a function of the backend's state \<open>b\<close> and the call that
  answers \<open>None\<close> when the call fails. The loop builds each call from the session state,
  adopts the acknowledgement as the new state, and stops at the first call that fails.
  Its value is the exchange: every call issued, in order, with its response. The
  progress callback is not part of this model.
\<close>

fun upload_ranges ::
  "('b \<Rightarrow> 'm ChunkCall \<Rightarrow> Acknowledgement option \<times> 'b) \<Rightarrow> byte list \<Rightarrow> 'm \<Rightarrow>
   ChunkRange list \<Rightarrow> UploadSessionState \<Rightarrow> 'b \<Rightarrow> ('m ChunkCall \<times> Acknowledgement option) list" where
  "upload_ranges transport payload meta [] st b = []"
| "upload_ranges transport payload meta (r # rs) st b =
     (let call = \<lparr>sliceBytes = slice_of payload r, rangeDescriptor = r, metadata = meta,
                  call_continuationId = continuationId st\<rparr>
      in case transport b call of
           (None, b') \<Rightarrow> [(call, None)]
         | (Some ack, b') \<Rightarrow>
             (call, Some ack) #
             upload_ranges transport payload meta rs
               (st\<lparr>continuationId := Some (ack_continuationId ack),
                   bytesUploaded := ack_bytesUploaded ack,
                   chunksUploaded := ack_chunksUploaded ack,
                   currentRangeIndex := Suc (currentRangeIndex st)\<rparr>) b')"

text \<open>
  Modelled from the spec: steps 2 and 3 of \<^verbatim>\<open>ChunkedUploadSession.run\<close> on the chunked
  path (the session's code is missing): plan the payload, start from a state with no
  continuation identifier, and send the ranges.
\<close>

definition run_chunked ::
  "('b \<Rightarrow> 'm ChunkCall \<Rightarrow> Acknowledgement option \<times> 'b) \<Rightarrow> byte list \<Rightarrow> 'm \<Rightarrow> int \<Rightarrow> 'b \<Rightarrow>
   ('m ChunkCall \<times> Acknowledgement option) list" where
  "run_chunked transport payload meta chunk_size b =
     upload_ranges transport payload meta (plan (int (length payload)) chunk_size)
       \<lparr>continuationId = None, bytesUploaded = 0, chunksUploaded = 0,
        chunksTotal = length (plan (int (length payload)) chunk_size), currentRangeIndex = 0\<rparr> b"

text \<open>
  Modelled from the spec: the plan \<^verbatim>\<open>Client.chunkedUpload\<close> makes for the request it is
  handed (the method's code is missing). By the spec the chunk size that decides
  whether to chunk is also the planner's range width, and \<^verbatim>\<open>publishVideo\<close> hands the
  method no chunk size, so the width is the static \<^verbatim>\<open>Client.CHUNK_SIZE\<close>; the file is
  the request's \<^verbatim>\<open>data\<close>.
\<close>

definition chunkedUpload_plan :: "Client_statics \<Rightarrow> ('url, 'cb) client_request \<Rightarrow> ChunkRange list" where
  "chunkedUpload_plan statics q =
     (case request_payload q ''data'' of
        Some (JFile fileData) \<Rightarrow> plan (int (file_size fileData)) (int (CHUNK_SIZE statics))
      | _ \<Rightarrow> [])"

section \<open>Missing arguments\<close>

text \<open>
  C4. A call of \<^verbatim>\<open>publishVideo\<close> in which a required argument (\<open>actorId\<close>,
  \<open>token\<close>, \<open>data\<close> or \<open>title\<close>) is \<^verbatim>\<open>undefined\<close> is rejected with an
  \<^verbatim>\<open>AppwriteException\<close> and invokes no method of the client: no transport call is
  made. The exception names the first missing argument, in the order \<open>actorId\<close>,
  \<open>token\<close>, \<open>data\<close>, \<open>title\<close>.
\<close>

theorem publishVideo_missing_argument:
  assumes "actorId = None \<or> token = None \<or> data = JUndefined \<or> title = None"
  shows "is_AppwriteException (publishVideo new_URL statics client actorId token data title onProgress)
       \<and> client_invocations (publishVideo new_URL statics client actorId token data title onProgress) = []
       \<and> publishVideo new_URL statics client actorId token data title onProgress =
           Inl (AppwriteException (''Missing required parameter: \"'' @
             (if actorId = None then ''actorId''
              else if token = None then ''token''
              else if data = JUndefined then ''data'' else ''title'') @ ''\"''))"
  using assms by (auto simp: publishVideo_def split: option.splits)

theorem publishVideo_missing_argument_witness:
  "is_AppwriteException
     (publishVideo Some Client_statics_default \<lparr>config = \<lparr>endpoint = ''http://localhost:37000''\<rparr>\<rparr>
        (Some 123) (Some ''tok'') (JBuffer \<lparr>arrayBuffer = [1, 2, 3], byteOffset = 0, byteLength = 3\<rparr>)
        None (None :: unit option))
   \<and> client_invocations
     (publishVideo Some Client_statics_default \<lparr>config = \<lparr>endpoint = ''http://localhost:37000''\<rparr>\<rparr>
        (Some 123) (Some ''tok'') (JBuffer \<lparr>arrayBuffer = [1, 2, 3], byteOffset = 0, byteLength = 3\<rparr>)
        None (None :: unit option)) = []
   \<and> publishVideo Some Client_statics_default \<lparr>config = \<lparr>endpoint = ''http://localhost:37000''\<rparr>\<rparr>
        (Some 123) (Some ''tok'') (JBuffer \<lparr>arrayBuffer = [1, 2, 3], byteOffset = 0, byteLength = 3\<rparr>)
        None (None :: unit option)
      = Inl (AppwriteException ''Missing required parameter: \"title\"'')"
  using publishVideo_missing_argument
    [where actorId = "Some 123" and token = "Some ''tok''"
       and data = "JBuffer \<lparr>arrayBuffer = [1, 2, 3], byteOffset = 0, byteLength = 3\<rparr>"
       and title = None and new_URL = Some and statics = Client_statics_default
       and client = "\<lparr>config = \<lparr>endpoint = ''http://localhost:37000''\<rparr>\<rparr>" and onProgress = "None :: unit option"]
  by simp

section \<open>The choice between the ordinary and the chunked upload\<close>

text \<open>What the service does once every argument check has passed.\<close>

lemma publishVideo_dispatch:
  assumes "fileData_of data = Some fileData"
    and "new_URL (endpoint (config client) @ apiPath) = Some uri"
  shows "publishVideo new_URL statics client (Some actor) (Some tok) data (Some ttl) onProgress =
    Inr (if file_size fileData \<le> CHUNK_SIZE statics \<and> onProgress = None
         then Call ''post'' uri [''content-type'' \<mapsto> ''multipart/form-data'']
                [''actor_id'' \<mapsto> JNumber actor, ''token'' \<mapsto> JString tok,
                 ''title'' \<mapsto> JString ttl, ''data'' \<mapsto> JFile fileData]
         else ChunkedUpload ''post'' uri [''content-type'' \<mapsto> ''multipart/form-data'']
                [''actor_id'' \<mapsto> JNumber actor, ''token'' \<mapsto> JString tok,
                 ''title'' \<mapsto> JString ttl, ''data'' \<mapsto> JFile fileData]
                (case onProgress of Some cb \<Rightarrow> Supplied cb | None \<Rightarrow> Noop))"
proof -
  from assms(1) have "data \<noteq> JUndefined" by auto
  with assms show ?thesis
    by (simp add: publishVideo_def Let_def not_less)
qed

text \<open>
  A payload that is a File, a Blob or a Buffer is converted to a File that holds the
  payload's own bytes, so the size the service compares is the payload's size.
\<close>

lemma fileData_of_data:
  assumes "instanceof_File data \<or> instanceof_Blob data \<or> isBuffer data"
  shows "\<exists>fileData. fileData_of data = Some fileData \<and> file_bytes fileData = data_bytes data"
  using assms by (cases data) (simp_all add: Uint8Array_def buffer_bytes_def)

lemma publishVideo_mode:
  assumes "instanceof_File data \<or> instanceof_Blob data \<or> isBuffer data"
    and "new_URL (endpoint (config client) @ apiPath) = Some uri"
  shows "\<exists>fileData. fileData_of data = Some fileData \<and> file_size fileData = data_size data
    \<and> publishVideo new_URL statics client (Some actor) (Some tok) data (Some ttl) onProgress =
      Inr (if data_size data \<le> CHUNK_SIZE statics \<and> onProgress = None
           then Call ''post'' uri [''content-type'' \<mapsto> ''multipart/form-data'']
                  [''actor_id'' \<mapsto> JNumber actor, ''token'' \<mapsto> JString tok,
                   ''title'' \<mapsto> JString ttl, ''data'' \<mapsto> JFile fileData]
           else ChunkedUpload ''post'' uri [''content-type'' \<mapsto> ''multipart/form-data'']
                  [''actor_id'' \<mapsto> JNumber actor, ''token'' \<mapsto> JString tok,
                   ''title'' \<mapsto> JString ttl, ''data'' \<mapsto> JFile fileData]
                  (case onProgress of Some cb \<Rightarrow> Supplied cb | None \<Rightarrow> Noop))"
proof -
  from fileData_of_data [OF assms(1)] obtain fileData
    where f: "fileData_of data = Some fileData" "file_bytes fileData = data_bytes data"
    by blast
  then have sz: "file_size fileData = data_size data"
    by (simp add: file_size_def data_size_def)
  have "publishVideo new_URL statics client (Some actor) (Some tok) data (Some ttl) onProgress =
      Inr (if data_size data \<le> CHUNK_SIZE statics \<and> onProgress = None
           then Call ''post'' uri [''content-type'' \<mapsto> ''multipart/form-data'']
                  [''actor_id'' \<mapsto> JNumber actor, ''token'' \<mapsto> JString tok,
                   ''title'' \<mapsto> JString ttl, ''data'' \<mapsto> JFile fileData]
           else ChunkedUpload ''post'' uri [''content-type'' \<mapsto> ''multipart/form-data'']
                  [''actor_id'' \<mapsto> JNumber actor, ''token'' \<mapsto> JString tok,
                   ''title'' \<mapsto> JString ttl, ''data'' \<mapsto> JFile fileData]
                  (case onProgress of Some cb \<Rightarrow> Supplied cb | None \<Rightarrow> Noop))"
    using publishVideo_dispatch
      [where new_URL = new_URL and statics = statics and actor = actor and tok = tok
         and ttl = ttl and onProgress = onProgress, OF f(1) assms(2)]
    by (simp only: sz)
  with f(1) sz show ?thesis by blast
qed

text \<open>
  C1. For every payload (a File, a Blob or a Buffer) and every optional progress
  callback, with the other required arguments present and the endpoint a URL:
  \<^verbatim>\<open>publishVideo\<close> makes exactly one invocation of the client; it is the ordinary
  \<^verbatim>\<open>client.call\<close> if and only if the payload's size is at most
  \<^verbatim>\<open>Client.CHUNK_SIZE\<close> and no \<open>onProgress\<close> was supplied, and it is
  \<^verbatim>\<open>client.chunkedUpload\<close> in every other case. With the static at its default the
  bound is 5 MiB, 5242880 bytes. The payload's size is the number of bytes of the File
  or Blob handed over, and the \<open>byteLength\<close> of a Buffer that lies within its
  ArrayBuffer.
\<close>

theorem publishVideo_transmission_mode:
  assumes "instanceof_File data \<or> instanceof_Blob data \<or> isBuffer data"
    and "new_URL (endpoint (config client) @ apiPath) = Some uri"
  shows "length (client_invocations
            (publishVideo new_URL statics client (Some actor) (Some tok) data (Some ttl) onProgress)) = 1
       \<and> (ordinary_call
            (publishVideo new_URL statics client (Some actor) (Some tok) data (Some ttl) onProgress)
            \<longleftrightarrow> data_size data \<le> CHUNK_SIZE statics \<and> onProgress = None)
       \<and> (chunked_path
            (publishVideo new_URL statics client (Some actor) (Some tok) data (Some ttl) onProgress)
            \<longleftrightarrow> \<not> (data_size data \<le> CHUNK_SIZE statics \<and> onProgress = None))
       \<and> (ordinary_call
            (publishVideo new_URL Client_statics_default client (Some actor) (Some tok) data
               (Some ttl) onProgress)
            \<longleftrightarrow> data_size data \<le> 5242880 \<and> onProgress = None)
       \<and> data_size (JFile f) = length (file_bytes f)
       \<and> data_size (JBlob b) = length (blob_bytes b)
       \<and> (byteOffset d + byteLength d \<le> length (arrayBuffer d) \<longrightarrow>
            data_size (JBuffer d) = byteLength d)"
proof -
  from publishVideo_mode
    [where new_URL = new_URL and statics = statics and actor = actor and tok = tok
       and ttl = ttl and onProgress = onProgress, OF assms]
  obtain fileData where here:
    "publishVideo new_URL statics client (Some actor) (Some tok) data (Some ttl) onProgress =
      Inr (if data_size data \<le> CHUNK_SIZE statics \<and> onProgress = None
           then Call ''post'' uri [''content-type'' \<mapsto> ''multipart/form-data'']
                  [''actor_id'' \<mapsto> JNumber actor, ''token'' \<mapsto> JString tok,
                   ''title'' \<mapsto> JString ttl, ''data'' \<mapsto> JFile fileData]
           else ChunkedUpload ''post'' uri [''content-type'' \<mapsto> ''multipart/form-data'']
                  [''actor_id'' \<mapsto> JNumber actor, ''token'' \<mapsto> JString tok,
                   ''title'' \<mapsto> JString ttl, ''data'' \<mapsto> JFile fileData]
                  (case onProgress of Some cb \<Rightarrow> Supplied cb | None \<Rightarrow> Noop))"
    by blast
  from publishVideo_mode
    [where new_URL = new_URL and statics = Client_statics_default and actor = actor and tok = tok
       and ttl = ttl and onProgress = onProgress, OF assms]
  obtain fileData' where default:
    "publishVideo new_URL Client_statics_default client (Some actor) (Some tok) data (Some ttl)
        onProgress =
      Inr (if data_size data \<le> CHUNK_SIZE Client_statics_default \<and> onProgress = None
           then Call ''post'' uri [''content-type'' \<mapsto> ''multipart/form-data'']
                  [''actor_id'' \<mapsto> JNumber actor, ''token'' \<mapsto> JString tok,
                   ''title'' \<mapsto> JString ttl, ''data'' \<mapsto> JFile fileData']
           else ChunkedUpload ''post'' uri [''content-type'' \<mapsto> ''multipart/form-data'']
                  [''actor_id'' \<mapsto> JNumber actor, ''token'' \<mapsto> JString tok,
                   ''title'' \<mapsto> JString ttl, ''data'' \<mapsto> JFile fileData']
                  (case onProgress of Some cb \<Rightarrow> Supplied cb | None \<Rightarrow> Noop))"
    by blast
  have "CHUNK_SIZE Client_statics_default = 5242880"
    by (simp add: Client_statics_default_def)
  then show ?thesis
    unfolding here default
    by (simp add: data_size_def buffer_bytes_def)
qed

theorem publishVideo_transmission_mode_witness:
  "client_invocations
     (publishVideo Some Client_statics_default \<lparr>config = \<lparr>endpoint = ''http://localhost:37000''\<rparr>\<rparr> (Some 123) (Some ''tok'')
        (JBlob \<lparr>blob_bytes = replicate 2097152 0, blob_type = ''video/mp4''\<rparr>)
        (Some ''My Video'') (None :: unit option))
     = [Call ''post'' ''http://localhost:37000/douyin/publish/action/''
          [''content-type'' \<mapsto> ''multipart/form-data'']
          [''actor_id'' \<mapsto> JNumber 123, ''token'' \<mapsto> JString ''tok'',
           ''title'' \<mapsto> JString ''My Video'',
           ''data'' \<mapsto> JFile \<lparr>file_bytes = replicate 2097152 0, file_name = ''video.mp4'',
                                 file_type = ''video/mp4''\<rparr>]]
   \<and> ordinary_call
     (publishVideo Some Client_statics_default \<lparr>config = \<lparr>endpoint = ''http://localhost:37000''\<rparr>\<rparr> (Some 123) (Some ''tok'')
        (JBlob \<lparr>blob_bytes = replicate 2097152 0, blob_type = ''video/mp4''\<rparr>)
        (Some ''My Video'') (None :: unit option))
   \<and> chunked_path
     (publishVideo Some Client_statics_default \<lparr>config = \<lparr>endpoint = ''http://localhost:37000''\<rparr>\<rparr> (Some 123) (Some ''tok'')
        (JBlob \<lparr>blob_bytes = replicate 2097152 0, blob_type = ''video/mp4''\<rparr>)
        (Some ''My Video'') (Some ()))
   \<and> ordinary_call
     (publishVideo Some Client_statics_default \<lparr>config = \<lparr>endpoint = ''http://localhost:37000''\<rparr>\<rparr> (Some 123) (Some ''tok'')
        (JFile \<lparr>file_bytes = replicate 5242880 0, file_name = ''a.mp4'', file_type = ''video/mp4''\<rparr>)
        (Some ''My Video'') (None :: unit option))
   \<and> chunked_path
     (publishVideo Some Client_statics_default \<lparr>config = \<lparr>endpoint = ''http://localhost:37000''\<rparr>\<rparr> (Some 123) (Some ''tok'')
        (JFile \<lparr>file_bytes = replicate 5242881 0, file_name = ''a.mp4'', file_type = ''video/mp4''\<rparr>)
        (Some ''My Video'') (None :: unit option))"
proof -
  have blob: "instanceof_File (JBlob \<lparr>blob_bytes = replicate 2097152 0, blob_type = ''video/mp4''\<rparr>)
      \<or> instanceof_Blob (JBlob \<lparr>blob_bytes = replicate 2097152 0, blob_type = ''video/mp4''\<rparr>)
      \<or> isBuffer (JBlob \<lparr>blob_bytes = replicate 2097152 0, blob_type = ''video/mp4''\<rparr>)"
    by simp
  have at_bound: "instanceof_File
        (JFile \<lparr>file_bytes = replicate 5242880 0, file_name = ''a.mp4'', file_type = ''video/mp4''\<rparr>)
      \<or> instanceof_Blob
        (JFile \<lparr>file_bytes = replicate 5242880 0, file_name = ''a.mp4'', file_type = ''video/mp4''\<rparr>)
      \<or> isBuffer
        (JFile \<lparr>file_bytes = replicate 5242880 0, file_name = ''a.mp4'', file_type = ''video/mp4''\<rparr>)"
    by simp
  have above: "instanceof_File
        (JFile \<lparr>file_bytes = replicate 5242881 0, file_name = ''a.mp4'', file_type = ''video/mp4''\<rparr>)
      \<or> instanceof_Blob
        (JFile \<lparr>file_bytes = replicate 5242881 0, file_name = ''a.mp4'', file_type = ''video/mp4''\<rparr>)
      \<or> isBuffer
        (JFile \<lparr>file_bytes = replicate 5242881 0, file_name = ''a.mp4'', file_type = ''video/mp4''\<rparr>)"
    by simp
  have u: "Some (endpoint (config \<lparr>config = \<lparr>endpoint = ''http://localhost:37000''\<rparr>\<rparr>) @ apiPath)
      = Some ''http://localhost:37000/douyin/publish/action/''"
    by (simp add: apiPath_def)
  have "ordinary_call
     (publishVideo Some Client_statics_default \<lparr>config = \<lparr>endpoint = ''http://localhost:37000''\<rparr>\<rparr> (Some 123) (Some ''tok'')
        (JBlob \<lparr>blob_bytes = replicate 2097152 0, blob_type = ''video/mp4''\<rparr>)
        (Some ''My Video'') (None :: unit option))"
    using publishVideo_transmission_mode
      [where new_URL = Some and statics = Client_statics_default and actor = 123
         and tok = "''tok''" and ttl = "''My Video''" and onProgress = "None :: unit option",
       OF blob u]
    by (simp add: data_size_def Client_statics_default_def)
  moreover have "chunked_path
     (publishVideo Some Client_statics_default \<lparr>config = \<lparr>endpoint = ''http://localhost:37000''\<rparr>\<rparr> (Some 123) (Some ''tok'')
        (JBlob \<lparr>blob_bytes = replicate 2097152 0, blob_type = ''video/mp4''\<rparr>)
        (Some ''My Video'') (Some ()))"
    using publishVideo_transmission_mode
      [where new_URL = Some and statics = Client_statics_default and actor = 123
         and tok = "''tok''" and ttl = "''My Video''" and onProgress = "Some ()",
       OF blob u]
    by simp
  moreover have "ordinary_call
     (publishVideo Some Client_statics_default \<lparr>config = \<lparr>endpoint = ''http://localhost:37000''\<rparr>\<rparr> (Some 123) (Some ''tok'')
        (JFile \<lparr>file_bytes = replicate 5242880 0, file_name = ''a.mp4'', file_type = ''video/mp4''\<rparr>)
        (Some ''My Video'') (None :: unit option))"
    using publishVideo_transmission_mode
      [where new_URL = Some and statics = Client_statics_default and actor = 123
         and tok = "''tok''" and ttl = "''My Video''" and onProgress = "None :: unit option",
       OF at_bound u]
    by (simp add: data_size_def Client_statics_default_def)
  moreover have "chunked_path
     (publishVideo Some Client_statics_default \<lparr>config = \<lparr>endpoint = ''http://localhost:37000''\<rparr>\<rparr> (Some 123) (Some ''tok'')
        (JFile \<lparr>file_bytes = replicate 5242881 0, file_name = ''a.mp4'', file_type = ''video/mp4''\<rparr>)
        (Some ''My Video'') (None :: unit option))"
    using publishVideo_transmission_mode
      [where new_URL = Some and statics = Client_statics_default and actor = 123
         and tok = "''tok''" and ttl = "''My Video''" and onProgress = "None :: unit option",
       OF above u]
    by (simp add: data_size_def Client_statics_default_def)
  moreover have "client_invocations
     (publishVideo Some Client_statics_default \<lparr>config = \<lparr>endpoint = ''http://localhost:37000''\<rparr>\<rparr> (Some 123) (Some ''tok'')
        (JBlob \<lparr>blob_bytes = replicate 2097152 0, blob_type = ''video/mp4''\<rparr>)
        (Some ''My Video'') (None :: unit option))
     = [Call ''post'' ''http://localhost:37000/douyin/publish/action/''
          [''content-type'' \<mapsto> ''multipart/form-data'']
          [''actor_id'' \<mapsto> JNumber 123, ''token'' \<mapsto> JString ''tok'',
           ''title'' \<mapsto> JString ''My Video'',
           ''data'' \<mapsto> JFile \<lparr>file_bytes = replicate 2097152 0, file_name = ''video.mp4'',
                                 file_type = ''video/mp4''\<rparr>]]"
    by (simp add: publishVideo_def apiPath_def file_size_def Client_statics_default_def)
  ultimately show ?thesis by simp
qed

section \<open>The payload's type\<close>



section \<open>The plan of the specification's chunk planner\<close>

text \<open>One step of the planner's loop, and its end.\<close>

lemma plan_from_done:
  "chunk_size \<le> 0 \<or> total_size \<le> offset \<Longrightarrow> plan_from offset i total_size chunk_size = []"
  by (subst plan_from.simps) simp

lemma plan_from_step:
  "0 < chunk_size \<Longrightarrow> offset < total_size \<Longrightarrow>
   plan_from offset i total_size chunk_size =
     \<lparr>start = offset, end' = min (offset + chunk_size) total_size - 1,
       totalSize = total_size, index = i\<rparr>
     # plan_from (min (offset + chunk_size) total_size) (Suc i) total_size chunk_size"
  by (subst plan_from.simps) simp

lemma plan_from_contiguous:
  "contiguous_from offset (plan_from offset i total_size chunk_size)"
proof (induction offset i total_size chunk_size rule: plan_from.induct)
  case (1 offset i total_size chunk_size)
  show ?case
  proof (cases "chunk_size \<le> 0 \<or> total_size \<le> offset")
    case True
    then show ?thesis by (simp add: plan_from_done)
  next
    case False
    with 1 show ?thesis by (simp add: plan_from_step)
  qed
qed

lemma plan_from_member:
  "r \<in> set (plan_from offset i total_size chunk_size) \<Longrightarrow>
   offset \<le> start r \<and> start r \<le> end' r \<and> end' r < total_size
   \<and> range_length r \<le> chunk_size \<and> totalSize r = total_size"
proof (induction offset i total_size chunk_size rule: plan_from.induct)
  case (1 offset i total_size chunk_size)
  show ?case
  proof (cases "chunk_size \<le> 0 \<or> total_size \<le> offset")
    case True
    with 1(2) show ?thesis by (simp add: plan_from_done)
  next
    case False
    with 1(2) have "r = \<lparr>start = offset, end' = min (offset + chunk_size) total_size - 1,
        totalSize = total_size, index = i\<rparr>
      \<or> r \<in> set (plan_from (min (offset + chunk_size) total_size) (Suc i) total_size chunk_size)"
      by (simp add: plan_from_step)
    then show ?thesis
    proof
      assume "r = \<lparr>start = offset, end' = min (offset + chunk_size) total_size - 1,
        totalSize = total_size, index = i\<rparr>"
      with False show ?thesis by (auto simp: range_length_def)
    next
      assume "r \<in> set (plan_from (min (offset + chunk_size) total_size) (Suc i) total_size chunk_size)"
      with 1(1) False have "min (offset + chunk_size) total_size \<le> start r \<and> start r \<le> end' r
        \<and> end' r < total_size \<and> range_length r \<le> chunk_size \<and> totalSize r = total_size"
        by simp
      with False show ?thesis by (auto simp: min_def split: if_splits)
    qed
  qed
qed

lemma plan_from_disjoint:
  "sorted_wrt (\<lambda>a b. end' a < start b) (plan_from offset i total_size chunk_size)"
proof (induction offset i total_size chunk_size rule: plan_from.induct)
  case (1 offset i total_size chunk_size)
  show ?case
  proof (cases "chunk_size \<le> 0 \<or> total_size \<le> offset")
    case True
    then show ?thesis by (simp add: plan_from_done)
  next
    case False
    have "min (offset + chunk_size) total_size - 1 < start r"
      if "r \<in> set (plan_from (min (offset + chunk_size) total_size) (Suc i) total_size chunk_size)" for r
      using plan_from_member [OF that] by simp
    with 1 False show ?thesis by (simp add: plan_from_step)
  qed
qed

lemma plan_from_sum:
  "0 < chunk_size \<Longrightarrow> offset \<le> total_size \<Longrightarrow>
   sum_list (map range_length (plan_from offset i total_size chunk_size)) = total_size - offset"
proof (induction offset i total_size chunk_size rule: plan_from.induct)
  case (1 offset i total_size chunk_size)
  show ?case
  proof (cases "total_size \<le> offset")
    case True
    with 1(3) show ?thesis by (simp add: plan_from_done)
  next
    case False
    with 1 show ?thesis by (simp add: plan_from_step range_length_def)
  qed
qed

lemma plan_from_count:
  "0 < chunk_size \<Longrightarrow> offset \<le> total_size \<Longrightarrow>
   int (length (plan_from offset i total_size chunk_size))
     = (total_size - offset + chunk_size - 1) div chunk_size"
proof (induction offset i total_size chunk_size rule: plan_from.induct)
  case (1 offset i total_size chunk_size)
  show ?case
  proof (cases "total_size \<le> offset")
    case True
    with 1(2,3) have "total_size = offset" by simp
    with 1(2) show ?thesis by (simp add: plan_from_done)
  next
    case False
    note open_range = this
    show ?thesis
    proof (cases "offset + chunk_size \<le> total_size")
      case True
      with 1 open_range
      have "int (length (plan_from offset i total_size chunk_size))
          = 1 + (total_size - (offset + chunk_size) + chunk_size - 1) div chunk_size"
        by (simp add: plan_from_step min_def)
      also have "\<dots> = (total_size - (offset + chunk_size) + chunk_size - 1 + chunk_size) div chunk_size"
        using 1(2) div_add_self2 [of chunk_size "total_size - (offset + chunk_size) + chunk_size - 1"]
        by simp
      also have "\<dots> = (total_size - offset + chunk_size - 1) div chunk_size"
        by (simp add: algebra_simps)
      finally show ?thesis .
    next
      case False
      with 1(2) open_range
      have "int (length (plan_from offset i total_size chunk_size)) = 1"
        by (simp add: plan_from_step min_def plan_from_done)
      moreover from False open_range 1(2)
      have "(total_size - offset + chunk_size - 1) div chunk_size = 1"
        by (intro int_div_pos_eq [where r = "total_size - offset - 1"]) auto
      ultimately show ?thesis by simp
    qed
  qed
qed

lemma plan_from_last:
  "0 < chunk_size \<Longrightarrow> offset < total_size \<Longrightarrow>
   end' (last (plan_from offset i total_size chunk_size)) = total_size - 1"
proof (induction offset i total_size chunk_size rule: plan_from.induct)
  case (1 offset i total_size chunk_size)
  show ?case
  proof (cases "offset + chunk_size < total_size")
    case True
    then have m: "min (offset + chunk_size) total_size = offset + chunk_size" by simp
    from 1(2) True have "plan_from (offset + chunk_size) (Suc i) total_size chunk_size \<noteq> []"
      by (subst plan_from_step) simp_all
    moreover from 1(1) [unfolded m] 1(2) True
    have "end' (last (plan_from (offset + chunk_size) (Suc i) total_size chunk_size)) = total_size - 1"
      by simp
    moreover from 1(2,3)
    have "plan_from offset i total_size chunk_size =
        \<lparr>start = offset, end' = offset + chunk_size - 1, totalSize = total_size, index = i\<rparr>
        # plan_from (offset + chunk_size) (Suc i) total_size chunk_size"
      using plan_from_step [of chunk_size offset total_size i] m by simp
    ultimately show ?thesis by simp
  next
    case False
    with 1(2,3) show ?thesis
      by (simp add: plan_from_step [of chunk_size offset] plan_from_done min_def)
  qed
qed

lemma plan_from_index:
  "map index (plan_from offset i total_size chunk_size)
     = [i ..< i + length (plan_from offset i total_size chunk_size)]"
proof (induction offset i total_size chunk_size rule: plan_from.induct)
  case (1 offset i total_size chunk_size)
  show ?case
  proof (cases "chunk_size \<le> 0 \<or> total_size \<le> offset")
    case True
    then show ?thesis by (simp add: plan_from_done)
  next
    case False
    define rest where
      "rest = plan_from (min (offset + chunk_size) total_size) (Suc i) total_size chunk_size"
    from False have whole: "plan_from offset i total_size chunk_size =
        \<lparr>start = offset, end' = min (offset + chunk_size) total_size - 1,
          totalSize = total_size, index = i\<rparr> # rest"
      by (simp add: plan_from_step rest_def)
    from 1 False have "map index rest = [Suc i ..< Suc i + length rest]"
      by (simp add: rest_def)
    then have "map index (plan_from offset i total_size chunk_size)
        = i # [Suc i ..< Suc i + length rest]"
      by (simp only: whole list.map ChunkRange.simps)
    also have "\<dots> = [i ..< Suc i + length rest]"
      by (rule upt_conv_Cons [symmetric]) simp
    also have "Suc i + length rest = i + length (plan_from offset i total_size chunk_size)"
      by (simp only: whole list.size add_Suc add_Suc_right)
    finally show ?thesis .
  qed
qed

text \<open>Every range but the last is exactly one chunk wide.\<close>

lemma plan_from_width:
  "r \<in> set (butlast (plan_from offset i total_size chunk_size)) \<Longrightarrow> range_length r = chunk_size"
proof (induction offset i total_size chunk_size rule: plan_from.induct)
  case (1 offset i total_size chunk_size)
  show ?case
  proof (cases "chunk_size \<le> 0 \<or> total_size \<le> offset")
    case True
    with 1(2) show ?thesis by (simp add: plan_from_done)
  next
    case False
    define rest where
      "rest = plan_from (min (offset + chunk_size) total_size) (Suc i) total_size chunk_size"
    from False have whole: "plan_from offset i total_size chunk_size =
        \<lparr>start = offset, end' = min (offset + chunk_size) total_size - 1,
          totalSize = total_size, index = i\<rparr> # rest"
      by (simp add: plan_from_step rest_def)
    show ?thesis
    proof (cases "rest = []")
      case True
      with 1(2) whole show ?thesis by simp
    next
      case False
      then have more: "min (offset + chunk_size) total_size < total_size"
        unfolding rest_def using plan_from_done [of chunk_size total_size "min (offset + chunk_size) total_size" "Suc i"]
        by (cases "total_size \<le> min (offset + chunk_size) total_size") auto
      from 1(2) whole False
      have "r = \<lparr>start = offset, end' = min (offset + chunk_size) total_size - 1,
          totalSize = total_size, index = i\<rparr> \<or> r \<in> set (butlast rest)"
        by simp
      then show ?thesis
      proof
        assume "r = \<lparr>start = offset, end' = min (offset + chunk_size) total_size - 1,
          totalSize = total_size, index = i\<rparr>"
        with more show ?thesis by (simp add: range_length_def min_def split: if_splits)
      next
        assume "r \<in> set (butlast rest)"
        with 1(1) \<open>\<not> (chunk_size \<le> 0 \<or> total_size \<le> offset)\<close> show ?thesis
          by (simp add: rest_def)
      qed
    qed
  qed
qed

lemma plan_width:
  assumes "0 \<le> chunk_size"
  shows "(\<forall>r \<in> set (plan total_size chunk_size). range_length r \<le> chunk_size)
       \<and> (\<forall>r \<in> set (butlast (plan total_size chunk_size)). range_length r = chunk_size)"
proof (cases "total_size = 0")
  case True
  with assms show ?thesis by (simp add: plan_def range_length_def)
next
  case False
  then show ?thesis
    using plan_from_member [of _ 0 0 total_size chunk_size]
      plan_from_width [of _ 0 0 total_size chunk_size]
    by (auto simp: plan_def)
qed

lemma plan_ceiling:
  assumes "0 < total_size" "0 < chunk_size"
  shows "(total_size + chunk_size - 1) div chunk_size
     = \<lceil>real_of_int total_size / real_of_int chunk_size\<rceil>"
proof -
  define n where "n = (total_size + chunk_size - 1) div chunk_size"
  have "(total_size + chunk_size - 1) = chunk_size * n + (total_size + chunk_size - 1) mod chunk_size"
    by (simp add: n_def)
  moreover have "0 \<le> (total_size + chunk_size - 1) mod chunk_size"
    "(total_size + chunk_size - 1) mod chunk_size < chunk_size"
    using assms(2) by simp_all
  ultimately have lo: "chunk_size * (n - 1) < total_size" and hi: "total_size \<le> chunk_size * n"
    by (simp_all add: algebra_simps)
  from lo have "real_of_int (chunk_size * (n - 1)) < real_of_int total_size"
    by (simp only: of_int_less_iff)
  then have "real_of_int n - 1 < real_of_int total_size / real_of_int chunk_size"
    using assms(2) by (simp add: field_simps)
  moreover from hi have "real_of_int total_size \<le> real_of_int (chunk_size * n)"
    by (simp only: of_int_le_iff)
  then have "real_of_int total_size / real_of_int chunk_size \<le> real_of_int n"
    using assms(2) by (simp add: field_simps)
  ultimately have "\<lceil>real_of_int total_size / real_of_int chunk_size\<rceil> = n"
    by (rule ceiling_unique)
  then show ?thesis by (simp add: n_def)
qed

lemma plan_12MiB:
  "plan 12582912 5242880 =
     [\<lparr>start = 0, end' = 5242879, totalSize = 12582912, index = 0\<rparr>,
      \<lparr>start = 5242880, end' = 10485759, totalSize = 12582912, index = 1\<rparr>,
      \<lparr>start = 10485760, end' = 12582911, totalSize = 12582912, index = 2\<rparr>]"
  by (simp add: plan_def plan_from_step plan_from_done)



text \<open>
  C2. For every \<open>totalSize > 0\<close> and \<open>chunkSize > 0\<close> the plan is an ordered sequence
  of byte ranges that is contiguous from offset 0, in which every range ends before
  each later one starts, every range holds at least one and at most \<open>chunkSize\<close>
  bytes, the lengths sum to \<open>totalSize\<close>, the final range ends at \<open>totalSize - 1\<close>,
  the number of ranges is \<open>ceil(totalSize / chunkSize)\<close>, and the ranges are numbered
  from 0 in order.
\<close>

theorem plan_properties:
  assumes "0 < total_size" and "0 < chunk_size"
  shows "contiguous_from 0 (plan total_size chunk_size)
       \<and> sorted_wrt (\<lambda>a b. end' a < start b) (plan total_size chunk_size)
       \<and> (\<forall>r \<in> set (plan total_size chunk_size).
             0 < range_length r \<and> range_length r \<le> chunk_size)
       \<and> sum_list (map range_length (plan total_size chunk_size)) = total_size
       \<and> end' (last (plan total_size chunk_size)) = total_size - 1
       \<and> int (length (plan total_size chunk_size))
            = \<lceil>real_of_int total_size / real_of_int chunk_size\<rceil>
       \<and> map index (plan total_size chunk_size) = [0 ..< length (plan total_size chunk_size)]"
proof -
  have p: "plan total_size chunk_size = plan_from 0 0 total_size chunk_size"
    using assms(1) by (simp add: plan_def)
  have "0 < range_length r \<and> range_length r \<le> chunk_size"
    if "r \<in> set (plan_from 0 0 total_size chunk_size)" for r
    using plan_from_member [OF that] by (simp add: range_length_def)
  moreover have "int (length (plan_from 0 0 total_size chunk_size))
      = \<lceil>real_of_int total_size / real_of_int chunk_size\<rceil>"
    using plan_from_count [of chunk_size 0 total_size 0] plan_ceiling [OF assms] assms by simp
  moreover have "sum_list (map range_length (plan_from 0 0 total_size chunk_size)) = total_size"
    using plan_from_sum [of chunk_size 0 total_size 0] assms by simp
  moreover have "map index (plan_from 0 0 total_size chunk_size)
      = [0 ..< length (plan_from 0 0 total_size chunk_size)]"
    using plan_from_index [of 0 0 total_size chunk_size] by simp
  ultimately show ?thesis
    unfolding p
    using plan_from_contiguous [of 0 0 total_size chunk_size]
      plan_from_disjoint [of 0 0 total_size chunk_size]
      plan_from_last [of chunk_size 0 total_size 0] assms
    by blast
qed

theorem plan_properties_witness:
  "contiguous_from 0 (plan 12582912 5242880)
   \<and> sum_list (map range_length (plan 12582912 5242880)) = 12582912
   \<and> end' (last (plan 12582912 5242880)) = 12582911
   \<and> length (plan 12582912 5242880) = 3
   \<and> map index (plan 12582912 5242880) = [0, 1, 2]
   \<and> map range_length (plan 12582912 5242880) = [5242880, 5242880, 2097152]"
  using plan_properties [of 12582912 5242880]
  by (simp add: plan_12MiB range_length_def)

text \<open>
  C8. For every \<open>chunkSize > 0\<close> the plan of an empty payload is exactly one range,
  the degenerate \<^verbatim>\<open>[0, -1]\<close> of length zero, so the session's loop issues one call
  for an empty payload.
\<close>

theorem plan_empty_payload:
  assumes "0 < chunk_size"
  shows "plan 0 chunk_size = [\<lparr>start = 0, end' = - 1, totalSize = 0, index = 0\<rparr>]
       \<and> map range_length (plan 0 chunk_size) = [0]
       \<and> length (run_chunked transport [] meta chunk_size b) = 1"
  by (simp add: plan_def range_length_def run_chunked_def Let_def split: prod.splits option.splits)

theorem plan_empty_payload_witness:
  "plan 0 5242880 = [\<lparr>start = 0, end' = - 1, totalSize = 0, index = 0\<rparr>]
   \<and> map range_length (plan 0 5242880) = [0]
   \<and> map (sliceBytes \<circ> fst)
       (run_chunked (\<lambda>n c. (Some \<lparr>ack_continuationId = ''u'', ack_chunksUploaded = 1,
                                    ack_bytesUploaded = 0\<rparr>, Suc n)) [] () 5242880 (0 :: nat)) = [[]]"
  using plan_empty_payload
    [of 5242880 "\<lambda>n c. (Some \<lparr>ack_continuationId = ''u'', ack_chunksUploaded = 1,
                                    ack_bytesUploaded = 0\<rparr>, Suc n)" "()" "0 :: nat"]
  by (simp add: run_chunked_def plan_def slice_of_def)

section \<open>The chunk size of the entry point\<close>

text \<open>
  C3, as amended. The caller-facing upload entry point,
  \<^verbatim>\<open>publishVideo(actorId, token, data, title, onProgress?)\<close>, accepts no
  \<^verbatim>\<open>chunkSizeOverride\<close> parameter. The chunk size it uses is the static
  \<^verbatim>\<open>Client.CHUNK_SIZE\<close>, 5 MiB by default, and that chunk size governs both the
  small-file skip-chunking decision and the planner's range width: for every value
  of the static, the service skips chunking exactly when the specification's entry
  point would for that chunk size (and, at the default, exactly when it would with no
  override), and the plan made for the request it issues has no range wider than the
  static and every range but the last exactly that wide. The decision is that of
  \<^verbatim>\<open>publishVideo\<close>; the plan is the one modelled from the specification for
  \<^verbatim>\<open>Client.chunkedUpload\<close>.
\<close>

theorem publishVideo_chunk_size_static:
  assumes "instanceof_File data \<or> instanceof_Blob data \<or> isBuffer data"
    and "new_URL (endpoint (config client) @ apiPath) = Some uri"
  shows "(ordinary_call
            (publishVideo new_URL statics client (Some actor) (Some tok) data (Some ttl) onProgress)
            \<longleftrightarrow> spec_skips_chunking (data_size data) (Some (CHUNK_SIZE statics)) (onProgress \<noteq> None))
       \<and> (ordinary_call
            (publishVideo new_URL Client_statics_default client (Some actor) (Some tok) data
               (Some ttl) onProgress)
            \<longleftrightarrow> spec_skips_chunking (data_size data) None (onProgress \<noteq> None))
       \<and> spec_chunkSize None = 5242880
       \<and> (\<forall>q. publishVideo new_URL statics client (Some actor) (Some tok) data (Some ttl) onProgress
                = Inr q \<longrightarrow>
            chunkedUpload_plan statics q = plan (int (data_size data)) (int (CHUNK_SIZE statics))
          \<and> (\<forall>r \<in> set (chunkedUpload_plan statics q). range_length r \<le> int (CHUNK_SIZE statics))
          \<and> (\<forall>r \<in> set (butlast (chunkedUpload_plan statics q)).
                range_length r = int (CHUNK_SIZE statics)))"
proof -
  from publishVideo_mode
    [where new_URL = new_URL and statics = statics and actor = actor and tok = tok
       and ttl = ttl and onProgress = onProgress, OF assms]
  obtain fileData where sz: "file_size fileData = data_size data" and here:
    "publishVideo new_URL statics client (Some actor) (Some tok) data (Some ttl) onProgress =
      Inr (if data_size data \<le> CHUNK_SIZE statics \<and> onProgress = None
           then Call ''post'' uri [''content-type'' \<mapsto> ''multipart/form-data'']
                  [''actor_id'' \<mapsto> JNumber actor, ''token'' \<mapsto> JString tok,
                   ''title'' \<mapsto> JString ttl, ''data'' \<mapsto> JFile fileData]
           else ChunkedUpload ''post'' uri [''content-type'' \<mapsto> ''multipart/form-data'']
                  [''actor_id'' \<mapsto> JNumber actor, ''token'' \<mapsto> JString tok,
                   ''title'' \<mapsto> JString ttl, ''data'' \<mapsto> JFile fileData]
                  (case onProgress of Some cb \<Rightarrow> Supplied cb | None \<Rightarrow> Noop))"
    by blast
  from publishVideo_mode
    [where new_URL = new_URL and statics = Client_statics_default and actor = actor and tok = tok
       and ttl = ttl and onProgress = onProgress, OF assms]
  obtain fileData' where default:
    "publishVideo new_URL Client_statics_default client (Some actor) (Some tok) data (Some ttl)
        onProgress =
      Inr (if data_size data \<le> CHUNK_SIZE Client_statics_default \<and> onProgress = None
           then Call ''post'' uri [''content-type'' \<mapsto> ''multipart/form-data'']
                  [''actor_id'' \<mapsto> JNumber actor, ''token'' \<mapsto> JString tok,
                   ''title'' \<mapsto> JString ttl, ''data'' \<mapsto> JFile fileData']
           else ChunkedUpload ''post'' uri [''content-type'' \<mapsto> ''multipart/form-data'']
                  [''actor_id'' \<mapsto> JNumber actor, ''token'' \<mapsto> JString tok,
                   ''title'' \<mapsto> JString ttl, ''data'' \<mapsto> JFile fileData']
                  (case onProgress of Some cb \<Rightarrow> Supplied cb | None \<Rightarrow> Noop))"
    by blast
  have decision: "(ordinary_call
            (publishVideo new_URL statics client (Some actor) (Some tok) data (Some ttl) onProgress)
            \<longleftrightarrow> spec_skips_chunking (data_size data) (Some (CHUNK_SIZE statics)) (onProgress \<noteq> None))
       \<and> (ordinary_call
            (publishVideo new_URL Client_statics_default client (Some actor) (Some tok) data
               (Some ttl) onProgress)
            \<longleftrightarrow> spec_skips_chunking (data_size data) None (onProgress \<noteq> None))
       \<and> spec_chunkSize None = 5242880"
    unfolding here default
    by (simp add: spec_skips_chunking_def spec_chunkSize_def Client_statics_default_def)
  have planned: "chunkedUpload_plan statics q = plan (int (data_size data)) (int (CHUNK_SIZE statics))"
    if "publishVideo new_URL statics client (Some actor) (Some tok) data (Some ttl) onProgress = Inr q"
    for q
    using that unfolding here
    by (auto simp: chunkedUpload_plan_def sz split: if_splits)
  have width: "(\<forall>r \<in> set (plan (int (data_size data)) (int (CHUNK_SIZE statics))).
        range_length r \<le> int (CHUNK_SIZE statics))
      \<and> (\<forall>r \<in> set (butlast (plan (int (data_size data)) (int (CHUNK_SIZE statics)))).
        range_length r = int (CHUNK_SIZE statics))"
    by (rule plan_width) simp
  from decision planned width show ?thesis by simp
qed

theorem publishVideo_chunk_size_static_witness:
  "chunked_path
     (publishVideo Some \<lparr>CHUNK_SIZE = 1048576\<rparr> \<lparr>config = \<lparr>endpoint = ''http://localhost:37000''\<rparr>\<rparr> (Some 123) (Some ''tok'')
        (JBuffer \<lparr>arrayBuffer = replicate 2621440 0, byteOffset = 0, byteLength = 2621440\<rparr>)
        (Some ''My Video'') (None :: unit option))
   \<and> map (\<lambda>q. map range_length (chunkedUpload_plan \<lparr>CHUNK_SIZE = 1048576\<rparr> q))
       (client_invocations
         (publishVideo Some \<lparr>CHUNK_SIZE = 1048576\<rparr> \<lparr>config = \<lparr>endpoint = ''http://localhost:37000''\<rparr>\<rparr> (Some 123) (Some ''tok'')
            (JBuffer \<lparr>arrayBuffer = replicate 2621440 0, byteOffset = 0, byteLength = 2621440\<rparr>)
            (Some ''My Video'') (None :: unit option)))
     = [[1048576, 1048576, 524288]]
   \<and> ordinary_call
     (publishVideo Some Client_statics_default \<lparr>config = \<lparr>endpoint = ''http://localhost:37000''\<rparr>\<rparr> (Some 123) (Some ''tok'')
        (JBuffer \<lparr>arrayBuffer = replicate 2621440 0, byteOffset = 0, byteLength = 2621440\<rparr>)
        (Some ''My Video'') (None :: unit option))"
proof -
  have buf: "instanceof_File
        (JBuffer \<lparr>arrayBuffer = replicate 2621440 0, byteOffset = 0, byteLength = 2621440\<rparr>)
      \<or> instanceof_Blob
        (JBuffer \<lparr>arrayBuffer = replicate 2621440 0, byteOffset = 0, byteLength = 2621440\<rparr>)
      \<or> isBuffer
        (JBuffer \<lparr>arrayBuffer = replicate 2621440 0, byteOffset = 0, byteLength = 2621440\<rparr>)"
    by simp
  have u: "Some (endpoint (config \<lparr>config = \<lparr>endpoint = ''http://localhost:37000''\<rparr>\<rparr>) @ apiPath)
      = Some ''http://localhost:37000/douyin/publish/action/''"
    by (simp add: apiPath_def)
  have sz: "data_size
      (JBuffer \<lparr>arrayBuffer = replicate 2621440 0, byteOffset = 0, byteLength = 2621440\<rparr>) = 2621440"
    by (simp add: data_size_def buffer_bytes_def)
  have p: "plan 2621440 1048576 =
     [\<lparr>start = 0, end' = 1048575, totalSize = 2621440, index = 0\<rparr>,
      \<lparr>start = 1048576, end' = 2097151, totalSize = 2621440, index = 1\<rparr>,
      \<lparr>start = 2097152, end' = 2621439, totalSize = 2621440, index = 2\<rparr>]"
    by (simp add: plan_def plan_from_step plan_from_done)
  have q: "publishVideo Some \<lparr>CHUNK_SIZE = 1048576\<rparr> \<lparr>config = \<lparr>endpoint = ''http://localhost:37000''\<rparr>\<rparr> (Some 123) (Some ''tok'')
        (JBuffer \<lparr>arrayBuffer = replicate 2621440 0, byteOffset = 0, byteLength = 2621440\<rparr>)
        (Some ''My Video'') (None :: unit option)
      = Inr (ChunkedUpload ''post'' ''http://localhost:37000/douyin/publish/action/''
          [''content-type'' \<mapsto> ''multipart/form-data'']
          [''actor_id'' \<mapsto> JNumber 123, ''token'' \<mapsto> JString ''tok'',
           ''title'' \<mapsto> JString ''My Video'',
           ''data'' \<mapsto> JFile \<lparr>file_bytes = replicate 2621440 0, file_name = ''video.mp4'',
                                 file_type = ''video/mp4''\<rparr>] Noop)"
    by (simp add: publishVideo_def apiPath_def file_size_def Uint8Array_def)
  show ?thesis
    using publishVideo_chunk_size_static
      [where new_URL = Some and statics = "\<lparr>CHUNK_SIZE = 1048576\<rparr>" and actor = 123
         and tok = "''tok''" and ttl = "''My Video''" and onProgress = "None :: unit option",
       OF buf u]
    by (simp add: q sz p range_length_def spec_skips_chunking_def spec_chunkSize_def
        Client_statics_default_def)
qed

text \<open>
  C3 as the specification states it fails. Given the override 1 MiB for a payload of
  3 MiB and no progress callback, the specification's entry point chunks.
  \<^verbatim>\<open>publishVideo\<close> has no parameter that takes an override: called with an actor, a
  token, the same payload, a title and no callback, while the static holds its default,
  it makes one ordinary call.
\<close>

theorem publishVideo_has_no_chunk_size_override:
  "ordinary_call
     (publishVideo Some Client_statics_default \<lparr>config = \<lparr>endpoint = ''http://localhost:37000''\<rparr>\<rparr> (Some 123) (Some ''tok'')
        (JBuffer \<lparr>arrayBuffer = replicate 3145728 0, byteOffset = 0, byteLength = 3145728\<rparr>)
        (Some ''My Video'') (None :: unit option))
   \<and> \<not> spec_skips_chunking 3145728 (Some 1048576) False"
  by (simp add: publishVideo_def Uint8Array_def file_size_def Client_statics_default_def
      spec_skips_chunking_def spec_chunkSize_def)

section \<open>The order of the chunk calls\<close>

lemma upload_ranges_order:
  "map (rangeDescriptor \<circ> fst) (upload_ranges transport payload meta rs st b)
     = take (length (upload_ranges transport payload meta rs st b)) rs"
  by (induction rs arbitrary: st b) (auto simp: Let_def split: prod.splits option.splits)

lemma upload_ranges_continuation:
  "map (call_continuationId \<circ> fst) (upload_ranges transport payload meta rs st b)
     = take (length (upload_ranges transport payload meta rs st b))
         (continuationId st #
          map (map_option ack_continuationId \<circ> snd) (upload_ranges transport payload meta rs st b))"
  by (induction rs arbitrary: st b) (auto simp: Let_def split: prod.splits option.splits)

lemma upload_ranges_acknowledged:
  "Suc k < length (upload_ranges transport payload meta rs st b) \<Longrightarrow>
   snd (upload_ranges transport payload meta rs st b ! k) \<noteq> None"
proof (induction rs arbitrary: st b k)
  case Nil
  then show ?case by simp
next
  case (Cons r rs)
  then show ?case
    by (cases k) (auto simp: Let_def split: prod.splits option.splits)
qed

lemma upload_ranges_complete:
  "\<forall>x \<in> set (upload_ranges transport payload meta rs st b). snd x \<noteq> None \<Longrightarrow>
   length (upload_ranges transport payload meta rs st b) = length rs"
proof (induction rs arbitrary: st b)
  case Nil
  then show ?case by simp
next
  case (Cons r rs)
  define call where "call = \<lparr>sliceBytes = slice_of payload r, rangeDescriptor = r, metadata = meta,
      call_continuationId = continuationId st\<rparr>"
  obtain resp b' where t: "transport b call = (resp, b')" by (cases "transport b call")
  show ?case
  proof (cases resp)
    case None
    with t Cons.prems show ?thesis by (simp add: call_def [symmetric])
  next
    case (Some ack)
    with t Cons.prems
    have "\<forall>x \<in> set (upload_ranges transport payload meta rs
        (st\<lparr>continuationId := Some (ack_continuationId ack),
            bytesUploaded := ack_bytesUploaded ack,
            chunksUploaded := ack_chunksUploaded ack,
            currentRangeIndex := Suc (currentRangeIndex st)\<rparr>) b'). snd x \<noteq> None"
      by (simp add: call_def [symmetric])
    from Cons.IH [OF this] t Some show ?thesis by (simp add: call_def [symmetric])
  qed
qed

lemma upload_ranges_length:
  "length (upload_ranges transport payload meta rs st b) \<le> length rs"
  by (induction rs arbitrary: st b) (auto simp: Let_def split: prod.splits option.splits)


text \<open>
  C6. In one chunked run the calls are issued one after the other in the plan's order:
  the ranges of the calls are an initial part of the plan, and all of it when no call
  fails. The first call carries no continuation identifier and every later call
  carries the identifier of the acknowledgement of the call before it, which did
  succeed. (The model is a sequential loop: each call is built from the state the
  previous acknowledgement left, so it has no concurrent calls to speak of.) For a
  12 MiB payload and 5 MiB chunks these are the three calls \<^verbatim>\<open>[0,5242879]\<close>,
  \<^verbatim>\<open>[5242880,10485759]\<close>, \<^verbatim>\<open>[10485760,12582911]\<close>.
\<close>

theorem run_chunked_sequence:
  "map (rangeDescriptor \<circ> fst) (run_chunked transport payload meta chunk_size b)
      = take (length (run_chunked transport payload meta chunk_size b))
          (plan (int (length payload)) chunk_size)
   \<and> map (call_continuationId \<circ> fst) (run_chunked transport payload meta chunk_size b)
      = take (length (run_chunked transport payload meta chunk_size b))
          (None # map (map_option ack_continuationId \<circ> snd)
                    (run_chunked transport payload meta chunk_size b))
   \<and> (\<forall>k. Suc k < length (run_chunked transport payload meta chunk_size b) \<longrightarrow>
          snd (run_chunked transport payload meta chunk_size b ! k) \<noteq> None)
   \<and> ((\<forall>x \<in> set (run_chunked transport payload meta chunk_size b). snd x \<noteq> None) \<longrightarrow>
          map (rangeDescriptor \<circ> fst) (run_chunked transport payload meta chunk_size b)
            = plan (int (length payload)) chunk_size)"
proof -
  let ?s = "\<lparr>continuationId = None, bytesUploaded = 0, chunksUploaded = 0,
      chunksTotal = length (plan (int (length payload)) chunk_size), currentRangeIndex = 0\<rparr>"
  let ?rs = "plan (int (length payload)) chunk_size"
  have "map (rangeDescriptor \<circ> fst) (upload_ranges transport payload meta ?rs ?s b) = ?rs"
    if "\<forall>x \<in> set (upload_ranges transport payload meta ?rs ?s b). snd x \<noteq> None"
    using upload_ranges_order [of transport payload meta ?rs ?s b] upload_ranges_complete [OF that]
    by simp
  then show ?thesis
    unfolding run_chunked_def
    using upload_ranges_order [of transport payload meta ?rs ?s b]
      upload_ranges_continuation [of transport payload meta ?rs ?s b]
      upload_ranges_acknowledged [of _ transport payload meta ?rs ?s b]
    by simp
qed

theorem run_chunked_sequence_witness:
  "map (\<lambda>(c, a). (start (rangeDescriptor c), end' (rangeDescriptor c), call_continuationId c))
     (run_chunked
        (\<lambda>n c. (Some \<lparr>ack_continuationId = replicate (Suc n) CHR ''u'', ack_chunksUploaded = Suc n,
                        ack_bytesUploaded = nat (end' (rangeDescriptor c) + 1)\<rparr>, Suc n))
        (replicate 12582912 0) () 5242880 0)
   = [(0, 5242879, None), (5242880, 10485759, Some ''u''), (10485760, 12582911, Some ''uu'')]"
  using run_chunked_sequence
    [of "\<lambda>n c. (Some \<lparr>ack_continuationId = replicate (Suc n) CHR ''u'', ack_chunksUploaded = Suc n,
                        ack_bytesUploaded = nat (end' (rangeDescriptor c) + 1)\<rparr>, Suc n)"
        "replicate 12582912 0" "()" 5242880 "0 :: nat"]
  by (simp add: run_chunked_def plan_12MiB)

end
